theory Spec2Isabelle
  imports Main
begin

section \<open>Python failures and outcomes\<close>

text \<open>
  The exceptions the interpreter raises in these modules; the string is the attribute,
  the name or the callable the exception is about.  A method that mutates its receiver
  ends in an \<open>outcome\<close>: it returns with the receiver's new state, or it raises with
  the state the receiver had reached when the exception left the method.
\<close>

datatype error =
    IndexError
  | AttributeError string
  | NameError string
  | TypeError string

datatype 's outcome = Return (state: 's) | Raise error (state: 's)

section \<open>action.py: the base class\<close>

text \<open>
  The five methods of class \<open>action\<close>.  The first three are \<open>pass\<close>; \<open>is_over\<close> returns
  \<open>True\<close> and \<open>result\<close> returns \<open>None\<close>.

  The children of a composite are taken to be distinct objects whose methods return
  and act on the child alone: \<open>start\<close> and \<open>update\<close> give the child's new state,
  \<open>is_over\<close> and \<open>result\<close> read it.  The one call back into the composite that is
  followed is the one the comments of \<open>sequence_action\<close> speak of, \<open>add_action\<close> called
  from a child's \<open>end\<close>: an \<open>end\<close> gives the list of actions it passes, one call each,
  to \<open>add_action\<close> of the composite that is ending it.  The base class passes none.
  A \<open>start\<close> or an \<open>update\<close> that calls back into the composite, as the callback of a
  \<open>callback_action\<close> may, is not covered.
\<close>

definition action_start :: "'a \<Rightarrow> 'a" where
  "action_start self = self"

definition action_update :: "'d \<Rightarrow> 'a \<Rightarrow> 'a" where
  "action_update dt self = self"

definition action_end :: "'a \<Rightarrow> 'a list" where
  "action_end self = []"

definition action_is_over :: "'a \<Rightarrow> bool" where
  "action_is_over self = True"

definition action_result :: "'a \<Rightarrow> 'r option" where
  "action_result self = None"

text \<open>
  A subclass of \<open>action\<close> is given by the methods it overrides; \<open>'a\<close> is the instance
  state and \<open>'d\<close> the type of \<open>dt\<close>.  A call resolves to the override when there is one
  and to the base class otherwise.
\<close>

record ('a, 'd, 'r) action_class =
  start_override :: "('a \<Rightarrow> 'a) option"
  update_override :: "('d \<Rightarrow> 'a \<Rightarrow> 'a) option"
  end_override :: "('a \<Rightarrow> 'a list) option"
  is_over_override :: "('a \<Rightarrow> bool) option"
  result_override :: "('a \<Rightarrow> 'r option) option"

definition action :: "('a, 'd, 'r) action_class" where
  "action = \<lparr>start_override = None, update_override = None, end_override = None,
     is_over_override = None, result_override = None\<rparr>"

definition start :: "('a, 'd, 'r) action_class \<Rightarrow> 'a \<Rightarrow> 'a" where
  "start C self = (case start_override C of Some f \<Rightarrow> f self | None \<Rightarrow> action_start self)"

definition update :: "('a, 'd, 'r) action_class \<Rightarrow> 'd \<Rightarrow> 'a \<Rightarrow> 'a" where
  "update C dt self =
     (case update_override C of Some f \<Rightarrow> f dt self | None \<Rightarrow> action_update dt self)"

definition end_action :: "('a, 'd, 'r) action_class \<Rightarrow> 'a \<Rightarrow> 'a list" where
  "end_action C self = (case end_override C of Some f \<Rightarrow> f self | None \<Rightarrow> action_end self)"

definition is_over :: "('a, 'd, 'r) action_class \<Rightarrow> 'a \<Rightarrow> bool" where
  "is_over C self =
     (case is_over_override C of Some f \<Rightarrow> f self | None \<Rightarrow> action_is_over self)"

definition result :: "('a, 'd, 'r) action_class \<Rightarrow> 'a \<Rightarrow> 'r option" where
  "result C self =
     (case result_override C of Some f \<Rightarrow> f self | None \<Rightarrow> action_result self)"

section \<open>bomb\_actions.py: wait\_action\<close>

text \<open>
  Name lookup in a function body: the local scope first, then the module's globals.
  No builtin is called \<open>end_time\<close>, so the builtins are left out.
\<close>

datatype 'v pyval = Self | Arg 'v | Class string | Num int

definition load_name :: "(string \<times> 'v pyval) list \<Rightarrow> (string \<times> 'v pyval) list \<Rightarrow> string
    \<Rightarrow> error + 'v pyval" where
  "load_name locals globals n =
     (case map_of locals n of
        Some v \<Rightarrow> Inr v
      | None \<Rightarrow> (case map_of globals n of Some v \<Rightarrow> Inr v | None \<Rightarrow> Inl (NameError n)))"

definition bomb_actions_globals :: "(string \<times> 'v pyval) list" where
  "bomb_actions_globals =
     [(''action'', Class ''action''), (''wait_action'', Class ''wait_action''),
      (''callback_action'', Class ''callback_action'')]"

text \<open>
  \<open>wait_action.__init__(self, time)\<close> evaluates the tuple \<open>0, end_time\<close> and then binds
  the two attributes; the instance exists only if both names resolve.
\<close>

definition wait_action_init :: "'v \<Rightarrow> error + ('v pyval \<times> 'v pyval)" where
  "wait_action_init time =
     (case load_name [(''self'', Self), (''time'', Arg time)] bomb_actions_globals ''end_time'' of
        Inl e \<Rightarrow> Inl e
      | Inr v \<Rightarrow> Inr (Num 0, v))"

text \<open>The three methods \<open>wait_action\<close> overrides, on an instance that has both attributes.\<close>

record wait_action =
  current_time :: int
  end_time :: int

definition wait_action_start :: "wait_action \<Rightarrow> wait_action" where
  "wait_action_start self = self\<lparr>current_time := 0\<rparr>"

definition wait_action_update :: "int \<Rightarrow> wait_action \<Rightarrow> wait_action" where
  "wait_action_update dt self = self\<lparr>current_time := current_time self + dt\<rparr>"

definition wait_action_is_over :: "wait_action \<Rightarrow> bool" where
  "wait_action_is_over self = (current_time self \<ge> end_time self)"

definition wait_action_class :: "(wait_action, int, 'r) action_class" where
  "wait_action_class = \<lparr>start_override = Some wait_action_start,
     update_override = Some wait_action_update, end_override = None,
     is_over_override = Some wait_action_is_over, result_override = None\<rparr>"

section \<open>sequence\_action.py\<close>

text \<open>
  The calls a composite makes on its children are recorded, each with the child as it
  was when called, in the order they happen.
\<close>

datatype ('a, 'd) call = Start 'a | Update 'd 'a | End 'a

record ('a, 'd) composite =
  calls :: "('a, 'd) call list"

record ('a, 'd) sequence_action = "('a, 'd) composite" +
  actions :: "'a list"

definition sequence_action_init :: "('a, 'd) sequence_action" where
  "sequence_action_init = \<lparr>calls = [], actions = []\<rparr>"

definition sequence_action_is_over :: "('a, 'd) sequence_action \<Rightarrow> bool" where
  "sequence_action_is_over self = (length (actions self) = 0)"

text \<open>
  \<open>add_action\<close> appends and then, when the deque has one element, evaluates
  \<open>self.action.start()\<close>.  A \<open>sequence_action\<close> instance has the one attribute
  \<open>actions\<close>, and neither \<open>sequence_action\<close> nor \<open>action\<close> defines \<open>action\<close>, so the
  attribute lookup raises before any \<open>start\<close> is called.
\<close>

definition sequence_action_add_action :: "'a \<Rightarrow> ('a, 'd) sequence_action
    \<Rightarrow> ('a, 'd) sequence_action outcome" where
  "sequence_action_add_action a self =
     (let self' = self\<lparr>actions := actions self @ [a]\<rparr>
      in if length (actions self') = 1 then Raise (AttributeError ''action'') self'
         else Return self')"

text \<open>The \<open>add_action\<close> calls an \<open>end\<close> makes, in order; the first that raises ends them.\<close>

fun add_actions :: "'a list \<Rightarrow> ('a, 'd) sequence_action \<Rightarrow> ('a, 'd) sequence_action outcome" where
  "add_actions [] self = Return self"
| "add_actions (a # as) self =
     (case sequence_action_add_action a self of
        Raise e self' \<Rightarrow> Raise e self'
      | Return self' \<Rightarrow> add_actions as self')"

text \<open>
  Lines 24-25 and 46-47: \<open>self.actions.popleft()\<close>, then \<open>front.end()\<close>.  The deque the
  \<open>end\<close> sees no longer holds \<open>front\<close>.
\<close>

definition pop_and_end :: "('a, 'd, 'r) action_class \<Rightarrow> 'a \<Rightarrow> 'a list
    \<Rightarrow> ('a, 'd) call list \<Rightarrow> ('a, 'd) sequence_action outcome" where
  "pop_and_end C front rest cs =
     add_actions (end_action C front) \<lparr>calls = cs @ [End front], actions = rest\<rparr>"

text \<open>
  The \<open>while True\<close> loop of \<open>update\<close>.  At its head \<open>front\<close> is the first element of the
  deque, \<open>rest\<close> the others.  The loop is left by one of the three \<open>return None\<close> or by
  an exception; it need not be left at all, so the result is an \<open>option\<close>.
\<close>

partial_function (option) update_loop :: "('a, 'd, 'r) action_class \<Rightarrow> 'd \<Rightarrow> 'a \<Rightarrow> 'a list
    \<Rightarrow> ('a, 'd) call list \<Rightarrow> ('a, 'd) sequence_action outcome option" where
  "update_loop C dt front rest cs =
     (if is_over C front then
        (case pop_and_end C front rest cs of
           Raise e self \<Rightarrow> Some (Raise e self)
         | Return self \<Rightarrow>
             (case actions self of
                [] \<Rightarrow> Some (Return self)
              | front' # rest' \<Rightarrow>
                  update_loop C dt (start C front') rest' (calls self @ [Start front'])))
      else
        (if is_over C (update C dt front) then
           (case pop_and_end C (update C dt front) rest (cs @ [Update dt front]) of
              Raise e self \<Rightarrow> Some (Raise e self)
            | Return self \<Rightarrow>
                (case actions self of
                   [] \<Rightarrow> Some (Return self)
                 | front' # rest' \<Rightarrow>
                     update_loop C dt (start C front') rest' (calls self @ [Start front'])))
         else
           Some (Return \<lparr>calls = cs @ [Update dt front], actions = update C dt front # rest\<rparr>)))"

declare update_loop.simps [code]

definition sequence_action_update :: "('a, 'd, 'r) action_class \<Rightarrow> 'd \<Rightarrow> ('a, 'd) sequence_action
    \<Rightarrow> ('a, 'd) sequence_action outcome option" where
  "sequence_action_update C dt self =
     (case actions self of
        [] \<Rightarrow> Some (Raise IndexError self)
      | front # rest \<Rightarrow> update_loop C dt front rest (calls self))"

section \<open>action\_list.py\<close>

text \<open>
  A call of the bound method \<open>update\<close> with the positional arguments \<open>args\<close>: the
  method takes exactly one, \<open>dt\<close>, and any other number is a \<open>TypeError\<close> raised
  before the body runs.
\<close>

definition call_sequence_action_update :: "('a, 'd, 'r) action_class \<Rightarrow> 'd list
    \<Rightarrow> ('a, 'd) sequence_action \<Rightarrow> ('a, 'd) sequence_action outcome option" where
  "call_sequence_action_update C args self =
     (case args of
        [dt] \<Rightarrow> sequence_action_update C dt self
      | _ \<Rightarrow> Some (Raise (TypeError ''update'') self))"

record ('a, 'd) action_list =
  sequence :: "('a, 'd) sequence_action"

definition action_list_init :: "('a, 'd) action_list" where
  "action_list_init = \<lparr>sequence = sequence_action_init\<rparr>"

text \<open>Line 13 is \<open>self.sequence.update()\<close>: the wrapper's \<open>dt\<close> is not passed on.\<close>

definition action_list_update :: "('a, 'd, 'r) action_class \<Rightarrow> 'd \<Rightarrow> ('a, 'd) action_list
    \<Rightarrow> ('a, 'd) action_list outcome option" where
  "action_list_update C dt self =
     (if \<not> sequence_action_is_over (sequence self) then
        (case call_sequence_action_update C [] (sequence self) of
           None \<Rightarrow> None
         | Some (Return s) \<Rightarrow> Some (Return (self\<lparr>sequence := s\<rparr>))
         | Some (Raise e s) \<Rightarrow> Some (Raise e (self\<lparr>sequence := s\<rparr>)))
      else Some (Return self))"

definition action_list_add_action :: "'a \<Rightarrow> ('a, 'd) action_list
    \<Rightarrow> ('a, 'd) action_list outcome" where
  "action_list_add_action a self =
     (case sequence_action_add_action a (sequence self) of
        Return s \<Rightarrow> Return (self\<lparr>sequence := s\<rparr>)
      | Raise e s \<Rightarrow> Raise e (self\<lparr>sequence := s\<rparr>))"

section \<open>set\_action.py\<close>

text \<open>
  What \<open>self.actions\<close> is bound to.  \<open>__init__\<close> binds a list.  \<open>update\<close> rebinds it
  to \<open>filter(check_continue_and_end, self.actions)\<close>, which in Python 3 (the modules
  use \<open>async\<close> and \<open>await\<close>) is a lazy iterator and not a list: \<open>FilterObj xs\<close> is such
  an iterator with the elements \<open>xs\<close> of the underlying list still to be visited.  It
  keeps nothing of what it has yielded.  A filter over a filter tests each element
  twice; since \<open>is_over\<close> changes nothing and an element that passed the first test has
  not been touched when the second runs, that is the same as testing once, and the
  nesting is not recorded.
\<close>

datatype 'a actions_attr = ListObj "'a list" | FilterObj "'a list"

record ('a, 'd) set_action = "('a, 'd) composite" +
  set_actions :: "'a actions_attr"
  started :: bool

definition set_action_init :: "('a, 'd) set_action" where
  "set_action_init = \<lparr>calls = [], set_actions = ListObj [], started = False\<rparr>"

text \<open>\<open>len(self.actions)\<close>: a list has a length, a filter object has none.\<close>

definition set_action_is_over :: "('a, 'd) set_action \<Rightarrow> error + bool" where
  "set_action_is_over self =
     (case set_actions self of
        ListObj xs \<Rightarrow> Inr (length xs = 0)
      | FilterObj xs \<Rightarrow> Inl (TypeError ''len''))"

text \<open>
  \<open>self.actions.append(action)\<close>, then \<open>action.start()\<close> if \<open>self.started\<close>.  A filter
  object has no \<open>append\<close>.
\<close>

definition set_action_add_action :: "('a, 'd, 'r) action_class \<Rightarrow> 'a \<Rightarrow> ('a, 'd) set_action
    \<Rightarrow> ('a, 'd) set_action outcome" where
  "set_action_add_action C a self =
     (case set_actions self of
        FilterObj xs \<Rightarrow> Raise (AttributeError ''append'') self
      | ListObj xs \<Rightarrow>
          (if started self
           then Return (self\<lparr>set_actions := ListObj (xs @ [start C a]),
                  calls := calls self @ [Start a]\<rparr>)
           else Return (self\<lparr>set_actions := ListObj (xs @ [a])\<rparr>)))"

fun set_action_add_actions :: "('a, 'd, 'r) action_class \<Rightarrow> 'a list \<Rightarrow> ('a, 'd) set_action
    \<Rightarrow> ('a, 'd) set_action outcome" where
  "set_action_add_actions C [] self = Return self"
| "set_action_add_actions C (a # as) self =
     (case set_action_add_action C a self of
        Raise e self' \<Rightarrow> Raise e self'
      | Return self' \<Rightarrow> set_action_add_actions C as self')"

text \<open>
  \<open>check_continue_and_end\<close>, run on a child of the composite \<open>self\<close>: the truth value
  it returns, and what the child's \<open>end\<close> did to the composite.
\<close>

definition check_continue_and_end :: "('a, 'd, 'r) action_class \<Rightarrow> 'a \<Rightarrow> ('a, 'd) set_action
    \<Rightarrow> bool \<times> ('a, 'd) set_action outcome" where
  "check_continue_and_end C a self =
     (if is_over C a
      then (False, set_action_add_actions C (end_action C a) (self\<lparr>calls := calls self @ [End a]\<rparr>))
      else (True, Return self))"

text \<open>
  \<open>for action in self.actions: body\<close> when \<open>self.actions\<close> is a filter object with \<open>xs\<close>
  still to visit: each element is fetched, tested by \<open>check_continue_and_end\<close>, and
  given to the loop body only if the test returned \<open>True\<close>, before the next element is
  fetched.  The body is one call on the child.
\<close>

fun for_filter :: "('a, 'd, 'r) action_class \<Rightarrow> ('a \<Rightarrow> ('a, 'd) call) \<Rightarrow> 'a list
    \<Rightarrow> ('a, 'd) set_action \<Rightarrow> ('a, 'd) set_action outcome" where
  "for_filter C body [] self = Return (self\<lparr>set_actions := FilterObj []\<rparr>)"
| "for_filter C body (a # xs) self =
     (case check_continue_and_end C a (self\<lparr>set_actions := FilterObj xs\<rparr>) of
        (b, Raise e self') \<Rightarrow> Raise e self'
      | (False, Return self') \<Rightarrow> for_filter C body xs self'
      | (True, Return self') \<Rightarrow>
          for_filter C body xs (self'\<lparr>calls := calls self' @ [body a]\<rparr>))"

definition set_action_start :: "('a, 'd, 'r) action_class \<Rightarrow> ('a, 'd) set_action
    \<Rightarrow> ('a, 'd) set_action outcome" where
  "set_action_start C self =
     (case set_actions self of
        ListObj xs \<Rightarrow>
          Return (self\<lparr>set_actions := ListObj (map (start C) xs),
            calls := calls self @ map Start xs, started := True\<rparr>)
      | FilterObj xs \<Rightarrow>
          (case for_filter C Start xs self of
             Raise e self' \<Rightarrow> Raise e self'
           | Return self' \<Rightarrow> Return (self'\<lparr>started := True\<rparr>)))"

definition set_action_update :: "('a, 'd, 'r) action_class \<Rightarrow> 'd \<Rightarrow> ('a, 'd) set_action
    \<Rightarrow> ('a, 'd) set_action outcome" where
  "set_action_update C dt self =
     (case set_actions self of
        ListObj xs \<Rightarrow> for_filter C (Update dt) xs self
      | FilterObj xs \<Rightarrow> for_filter C (Update dt) xs self)"

section \<open>Client classes and trace predicates\<close>

text \<open>
  A client class for the case the comments of \<open>sequence_action\<close> describe, an \<open>end\<close>
  that adds to the sequence it is leaving: instances are numbered, \<open>is_over\<close> is
  inherited from \<open>action\<close>, and the \<open>end\<close> of instance 0 calls \<open>add_action\<close> with
  instance 1.
\<close>

definition relay :: "(nat, 'd, 'r) action_class" where
  "relay = \<lparr>start_override = None, update_override = None,
     end_override = Some (\<lambda>n. if n = 0 then [1] else []),
     is_over_override = None, result_override = None\<rparr>"




section \<open>The base class and the leaf action\<close>

text \<open>
  C10.  An action of the base class is always over and has no result, and its \<open>start\<close>,
  \<open>update\<close> and \<open>end\<close> change nothing (the \<open>end\<close> adds nothing either).  So an instance
  of any class that does not override \<open>is_over\<close> is over right after its \<open>start\<close>,
  whatever that \<open>start\<close> did and before any \<open>dt\<close> reaches it.
\<close>

theorem action_defaults:
  "is_over action self \<and> result action self = None \<and> start action self = self
   \<and> update action dt self = self \<and> end_action action self = []
   \<and> (is_over_override C = None \<longrightarrow> is_over C (start C a))"
  by (simp add: is_over_def result_def start_def update_def end_action_def action_def
      action_is_over_def action_result_def action_start_def action_update_def action_end_def)

theorem action_defaults_witness:
  "is_over_override (action\<lparr>start_override := Some Suc\<rparr> :: (nat, int, unit) action_class) = None
   \<and> is_over (action\<lparr>start_override := Some Suc\<rparr> :: (nat, int, unit) action_class)
        (start (action\<lparr>start_override := Some Suc\<rparr> :: (nat, int, unit) action_class) 0)"
proof -
  let ?C = "action\<lparr>start_override := Some Suc\<rparr> :: (nat, int, unit) action_class"
  have none: "is_over_override ?C = None"
    by (simp add: action_def)
  have "is_over_override ?C = None \<longrightarrow> is_over ?C (start ?C 0)"
    using action_defaults [where C = ?C and a = 0 and self = "()" and dt = "0::int"] by blast
  with none show ?thesis by blast
qed

text \<open>
  C9.  Whatever is passed as the duration, the initializer of \<open>wait_action\<close> raises
  \<open>NameError\<close> for \<open>end_time\<close>: the name is neither a parameter nor a global of the
  module.  No \<open>wait_action\<close> comes out of its constructor.
\<close>

theorem wait_action_init_raises:
  "wait_action_init time = Inl (NameError ''end_time'')"
  by (simp add: wait_action_init_def load_name_def bomb_actions_globals_def)

section \<open>The sequence\<close>

text \<open>
  C5.  \<open>add_action\<close> on an empty sequence appends the action and then raises
  \<open>AttributeError\<close>: the action is in the deque, it has not been started, and the call
  has not returned.
\<close>

theorem add_action_on_empty_raises:
  "sequence_action_add_action a \<lparr>calls = cs, actions = []\<rparr>
     = Raise (AttributeError ''action'') \<lparr>calls = cs, actions = [a]\<rparr>"
  by (simp add: sequence_action_add_action_def)

text \<open>
  C4, as the claim states it, fails: \<open>update\<close> on a new, empty sequence raises
  \<open>IndexError\<close>.
\<close>

theorem update_on_empty_counterexample:
  "sequence_action_update (wait_action_class :: (wait_action, int, unit) action_class) 1
     sequence_action_init = Some (Raise IndexError sequence_action_init)"
  by (simp add: sequence_action_update_def sequence_action_init_def)

text \<open>
  C4, amended.  \<open>update\<close> on a sequence whose queue is empty raises \<open>IndexError\<close> and
  leaves the sequence as it was.  The call that is a no-op on an empty queue is the
  wrapper's: \<open>action_list.update\<close> tests \<open>is_over\<close> first and returns with nothing
  changed.
\<close>

theorem update_on_empty:
  "sequence_action_update C dt \<lparr>calls = cs, actions = []\<rparr>
     = Some (Raise IndexError \<lparr>calls = cs, actions = []\<rparr>)
   \<and> action_list_update C dt \<lparr>sequence = \<lparr>calls = cs, actions = []\<rparr>\<rparr>
     = Some (Return \<lparr>sequence = \<lparr>calls = cs, actions = []\<rparr>\<rparr>)"
  by (simp add: sequence_action_update_def action_list_update_def sequence_action_is_over_def)

text \<open>
  C2.  The front child is over and is the only one queued; its \<open>end\<close> adds a successor.
  The child is popped before its \<open>end\<close> runs, so the successor arrives in an empty deque
  and becomes the front, but it is not started: \<open>add_action\<close> raises, and the
  exception leaves \<open>end\<close> and \<open>update\<close>.  (With a second child queued behind the first,
  the successor joins the back of the deque and is started when its turn comes.)
\<close>

theorem end_adds_successor_raises:
  "sequence_action_update (relay :: (nat, int, unit) action_class) 1 \<lparr>calls = [], actions = [0]\<rparr>
     = Some (Raise (AttributeError ''action'') \<lparr>calls = [End 0], actions = [1]\<rparr>)
   \<and> sequence_action_update (relay :: (nat, int, unit) action_class) 1
       \<lparr>calls = [], actions = [0, 5]\<rparr>
     = Some (Return \<lparr>calls = [End 0, Start 5, End 5, Start 1, End 1], actions = []\<rparr>)"
  by (simp add: sequence_action_update_def update_loop.simps relay_def is_over_def start_def
      action_is_over_def action_start_def end_action_def pop_and_end_def
      sequence_action_add_action_def)

subsection \<open>Who receives \<open>dt\<close>\<close>










section \<open>The wrapper\<close>

text \<open>
  C8.  A wrapper whose sequence holds one unfinished timer (the state \<open>add_action\<close>
  leaves behind on a new wrapper).  \<open>update(1)\<close> on the wrapper raises \<open>TypeError\<close> and
  the timer is not advanced; \<open>update(1)\<close> on the sequence itself advances it.
\<close>

theorem action_list_update_raises:
  "action_list_add_action \<lparr>current_time = 0, end_time = 5\<rparr> action_list_init
     = Raise (AttributeError ''action'')
         \<lparr>sequence = \<lparr>calls = [], actions = [\<lparr>current_time = 0, end_time = 5\<rparr>]\<rparr>\<rparr>
   \<and> action_list_update (wait_action_class :: (wait_action, int, unit) action_class) 1
       \<lparr>sequence = \<lparr>calls = [], actions = [\<lparr>current_time = 0, end_time = 5\<rparr>]\<rparr>\<rparr>
     = Some (Raise (TypeError ''update'')
         \<lparr>sequence = \<lparr>calls = [], actions = [\<lparr>current_time = 0, end_time = 5\<rparr>]\<rparr>\<rparr>)
   \<and> sequence_action_update (wait_action_class :: (wait_action, int, unit) action_class) 1
       \<lparr>calls = [], actions = [\<lparr>current_time = 0, end_time = 5\<rparr>]\<rparr>
     = Some (Return \<lparr>calls = [Update 1 \<lparr>current_time = 0, end_time = 5\<rparr>],
         actions = [\<lparr>current_time = 1, end_time = 5\<rparr>]\<rparr>)"
  by (simp add: action_list_add_action_def action_list_init_def sequence_action_init_def
      sequence_action_add_action_def action_list_update_def sequence_action_is_over_def
      call_sequence_action_update_def sequence_action_update_def update_loop.simps
      wait_action_class_def is_over_def update_def wait_action_is_over_def
      wait_action_update_def)

section \<open>The set\<close>

text \<open>
  C6.  After one \<open>update\<close>, even of a new and empty set, \<open>is_over\<close> raises \<open>TypeError\<close>:
  \<open>self.actions\<close> is a filter object by then and has no length.
\<close>

theorem set_is_over_after_update_raises:
  "set_action_update (wait_action_class :: (wait_action, int, unit) action_class) 1 set_action_init
     = Return \<lparr>calls = [], set_actions = FilterObj [], started = False\<rparr>
   \<and> set_action_is_over (\<lparr>calls = [], set_actions = FilterObj [], started = False\<rparr>
         :: (wait_action, int) set_action)
     = Inl (TypeError ''len'')"
  by (simp add: set_action_update_def set_action_init_def set_action_is_over_def)

text \<open>
  C3.  Two timers are added to a new set, the first with one time unit to go and the
  second of duration zero, and the set is started.  In \<open>update(1)\<close> the first timer is
  updated before the second is ended: the tests and the updates are interleaved, one
  child at a time.  The pass leaves no child in the set, so the next \<open>update(1)\<close> makes
  no call at all, and the first timer, which is over since the first pass, never gets
  its \<open>end\<close>.
\<close>

theorem set_update_single_pass:
  "set_action_add_actions (wait_action_class :: (wait_action, int, unit) action_class)
       [\<lparr>current_time = 7, end_time = 1\<rparr>, \<lparr>current_time = 7, end_time = 0\<rparr>] set_action_init
     = Return \<lparr>calls = [],
         set_actions = ListObj [\<lparr>current_time = 7, end_time = 1\<rparr>, \<lparr>current_time = 7, end_time = 0\<rparr>],
         started = False\<rparr>
   \<and> set_action_start (wait_action_class :: (wait_action, int, unit) action_class)
       \<lparr>calls = [],
          set_actions = ListObj [\<lparr>current_time = 7, end_time = 1\<rparr>, \<lparr>current_time = 7, end_time = 0\<rparr>],
          started = False\<rparr>
     = Return \<lparr>calls = [Start \<lparr>current_time = 7, end_time = 1\<rparr>, Start \<lparr>current_time = 7, end_time = 0\<rparr>],
         set_actions = ListObj [\<lparr>current_time = 0, end_time = 1\<rparr>, \<lparr>current_time = 0, end_time = 0\<rparr>],
         started = True\<rparr>
   \<and> set_action_update (wait_action_class :: (wait_action, int, unit) action_class) 1
       \<lparr>calls = [Start \<lparr>current_time = 7, end_time = 1\<rparr>, Start \<lparr>current_time = 7, end_time = 0\<rparr>],
          set_actions = ListObj [\<lparr>current_time = 0, end_time = 1\<rparr>, \<lparr>current_time = 0, end_time = 0\<rparr>],
          started = True\<rparr>
     = Return \<lparr>calls = [Start \<lparr>current_time = 7, end_time = 1\<rparr>, Start \<lparr>current_time = 7, end_time = 0\<rparr>,
           Update 1 \<lparr>current_time = 0, end_time = 1\<rparr>, End \<lparr>current_time = 0, end_time = 0\<rparr>],
         set_actions = FilterObj [], started = True\<rparr>
   \<and> set_action_update (wait_action_class :: (wait_action, int, unit) action_class) 1
       \<lparr>calls = [Start \<lparr>current_time = 7, end_time = 1\<rparr>, Start \<lparr>current_time = 7, end_time = 0\<rparr>,
           Update 1 \<lparr>current_time = 0, end_time = 1\<rparr>, End \<lparr>current_time = 0, end_time = 0\<rparr>],
          set_actions = FilterObj [], started = True\<rparr>
     = Return \<lparr>calls = [Start \<lparr>current_time = 7, end_time = 1\<rparr>, Start \<lparr>current_time = 7, end_time = 0\<rparr>,
           Update 1 \<lparr>current_time = 0, end_time = 1\<rparr>, End \<lparr>current_time = 0, end_time = 0\<rparr>],
         set_actions = FilterObj [], started = True\<rparr>"
  by (simp add: set_action_init_def set_action_add_action_def set_action_start_def
      set_action_update_def check_continue_and_end_def wait_action_class_def is_over_def
      start_def end_action_def action_end_def wait_action_is_over_def wait_action_start_def)

text \<open>
  C7.  A timer is added to a new set, the set is started and updated once.  A second
  timer is then added, after the set's \<open>start\<close>: \<open>add_action\<close> raises \<open>AttributeError\<close>
  at \<open>self.actions.append\<close>, because \<open>self.actions\<close> is a filter object since the
  \<open>update\<close>.  The second timer is not held and its \<open>start\<close> is never called.
\<close>

theorem add_action_after_update_raises:
  "set_action_add_action (wait_action_class :: (wait_action, int, unit) action_class)
       \<lparr>current_time = 7, end_time = 5\<rparr> set_action_init
     = Return \<lparr>calls = [], set_actions = ListObj [\<lparr>current_time = 7, end_time = 5\<rparr>],
         started = False\<rparr>
   \<and> set_action_start (wait_action_class :: (wait_action, int, unit) action_class)
       \<lparr>calls = [], set_actions = ListObj [\<lparr>current_time = 7, end_time = 5\<rparr>], started = False\<rparr>
     = Return \<lparr>calls = [Start \<lparr>current_time = 7, end_time = 5\<rparr>],
         set_actions = ListObj [\<lparr>current_time = 0, end_time = 5\<rparr>], started = True\<rparr>
   \<and> set_action_update (wait_action_class :: (wait_action, int, unit) action_class) 1
       \<lparr>calls = [Start \<lparr>current_time = 7, end_time = 5\<rparr>],
          set_actions = ListObj [\<lparr>current_time = 0, end_time = 5\<rparr>], started = True\<rparr>
     = Return \<lparr>calls = [Start \<lparr>current_time = 7, end_time = 5\<rparr>,
           Update 1 \<lparr>current_time = 0, end_time = 5\<rparr>],
         set_actions = FilterObj [], started = True\<rparr>
   \<and> set_action_add_action (wait_action_class :: (wait_action, int, unit) action_class)
       \<lparr>current_time = 7, end_time = 3\<rparr>
       \<lparr>calls = [Start \<lparr>current_time = 7, end_time = 5\<rparr>,
           Update 1 \<lparr>current_time = 0, end_time = 5\<rparr>],
          set_actions = FilterObj [], started = True\<rparr>
     = Raise (AttributeError ''append'')
         \<lparr>calls = [Start \<lparr>current_time = 7, end_time = 5\<rparr>,
           Update 1 \<lparr>current_time = 0, end_time = 5\<rparr>],
          set_actions = FilterObj [], started = True\<rparr>"
  by (simp add: set_action_init_def set_action_add_action_def set_action_start_def
      set_action_update_def check_continue_and_end_def wait_action_class_def is_over_def
      start_def wait_action_is_over_def wait_action_start_def)

end
